theory Spec2Isabelle
  imports Complex_Main "HOL-Library.AList"
begin

section \<open>Values, exceptions and files\<close>

text \<open>
  The dataset versioning utility keeps all its state in files: one directory per version
  under the versions directory (the copied dataset and \<open>metadata.json\<close>), the index
  file, the current-version file and \<open>rollback_history.json\<close> in the logs directory.
  The embedding passes that state explicitly. What \<open>json.load\<close> returns is a value of
  type \<open>json\<close>; a Python dict is an association list in insertion order.
  Floats are carried as reals: the only operation on them here is the range check of
  the quality score.
\<close>

datatype json =
    JNull
  | JBool bool
  | JInt int
  | JFloat real
  | JStr string
  | JArr "json list"
  | JObj "(string \<times> json) list"

datatype exc_class =
    FileNotFoundError | ValueError | TypeError | KeyError | AttributeError
  | JSONDecodeError | UnicodeDecodeError | OSError | CsvError | Unmodelled

text \<open>
  An exception is its class and \<open>str(e)\<close>. The text of an exception that the
  interpreter itself raises (TypeError, KeyError, AttributeError) is not modelled and
  left empty; the text of an exception from the file system is part of the state.
  \<open>Unmodelled\<close> is not a Python exception: it marks an input on which the model
  does not say what the code does.
\<close>

datatype py_error = Exc exc_class string

fun exc_str :: "py_error \<Rightarrow> string" where
  "exc_str (Exc c m) = m"

fun exc_cls :: "py_error \<Rightarrow> exc_class" where
  "exc_cls (Exc c m) = c"

text \<open>
  A file is missing, or it exists and reading it raises, or it exists and reading it
  gives a content. For a JSON file the content is the parsed value, and a file that
  does not parse is \<open>Unreadable\<close> with the \<open>JSONDecodeError\<close> of \<open>load_json\<close>.
\<close>

datatype 'a file_state = Missing | Unreadable py_error | Content 'a

fun exists_file :: "'a file_state \<Rightarrow> bool" where
  "exists_file Missing = False"
| "exists_file _ = True"

datatype level = DEBUG | INFO | WARNING | ERROR

section \<open>Python's string functions, on ASCII\<close>

text \<open>
  \<open>str.strip\<close> removes the characters of \<open>str.isspace\<close>; in ASCII these are 9 to
  13, 28 to 31 and the blank. \<open>int\<close> and \<open>float\<close> leave an ASCII string as it is
  and skip the white space of C at both ends: 9 to 13 and the blank only, so that
  \<open>int\<close> refuses a string that ends in character 28. Strings with characters beyond
  ASCII (Unicode white space, Unicode decimal digits) are outside this model, and so is
  the interpreter's optional limit on the number of digits \<open>int\<close> converts.
\<close>

definition is_space :: "char \<Rightarrow> bool" where
  \<comment> \<open>\<open>str.isspace\<close>\<close>
  "is_space c = (let n = (of_char c :: nat) in (9 \<le> n \<and> n \<le> 13) \<or> (28 \<le> n \<and> n \<le> 32))"

definition is_c_space :: "char \<Rightarrow> bool" where
  \<comment> \<open>the white space that \<open>int\<close> and \<open>float\<close> skip\<close>
  "is_c_space c = (let n = (of_char c :: nat) in (9 \<le> n \<and> n \<le> 13) \<or> n = 32)"

definition strip_with :: "(char \<Rightarrow> bool) \<Rightarrow> string \<Rightarrow> string" where
  "strip_with p s = rev (dropWhile p (rev (dropWhile p s)))"

definition strip :: "string \<Rightarrow> string" where
  \<comment> \<open>\<open>s.strip()\<close>\<close>
  "strip s = strip_with is_space s"

definition c_strip :: "string \<Rightarrow> string" where
  "c_strip s = strip_with is_c_space s"

text \<open>
  A file opened for reading in text mode gives every line end as a line feed: a
  carriage return, with the line feed after it if there is one, is read as one line
  feed.
\<close>

fun universal_newlines :: "string \<Rightarrow> string" where
  "universal_newlines [] = []"
| "universal_newlines [c] = (if c = CHR 0x0D then [CHR 0x0A] else [c])"
| "universal_newlines (c # d # cs) =
     (if c = CHR 0x0D
      then (if d = CHR 0x0A then CHR 0x0A # universal_newlines cs
            else CHR 0x0A # universal_newlines (d # cs))
      else c # universal_newlines (d # cs))"

definition is_digit :: "char \<Rightarrow> bool" where
  "is_digit c = (let n = (of_char c :: nat) in 48 \<le> n \<and> n \<le> 57)"

definition digit_val :: "char \<Rightarrow> nat" where
  "digit_val c = of_char c - 48"

text \<open>
  The digits of a number may be grouped by single underscores, each between two digits.
  \<open>digits_us prev s\<close> returns the digits of \<open>s\<close> without the underscores, or
  \<open>None\<close> where an underscore is misplaced or another character occurs; \<open>prev\<close>
  tells whether the character before was a digit.
\<close>

fun digits_us :: "bool \<Rightarrow> string \<Rightarrow> string option" where
  "digits_us prev [] = (if prev then Some [] else None)"
| "digits_us prev (c # cs) =
     (if c = CHR ''_'' then (if prev \<and> cs \<noteq> [] then digits_us False cs else None)
      else if is_digit c then map_option ((#) c) (digits_us True cs)
      else None)"

definition decimal_digits :: "string \<Rightarrow> string option" where
  "decimal_digits s = (if s = [] then None else digits_us False s)"

definition nat_of_digits :: "string \<Rightarrow> nat" where
  "nat_of_digits ds = foldl (\<lambda>n c. 10 * n + digit_val c) 0 ds"

definition split_sign :: "string \<Rightarrow> bool \<times> string" where
  "split_sign s =
     (case s of
        [] \<Rightarrow> (False, [])
      | c # cs \<Rightarrow> if c = CHR ''-'' then (True, cs)
                 else if c = CHR ''+'' then (False, cs) else (False, s))"

definition py_int :: "string \<Rightarrow> int option" where
  \<comment> \<open>\<open>int(s)\<close>: \<open>None\<close> is the ValueError.\<close>
  "py_int s =
     (let (neg, body) = split_sign (c_strip s)
      in case decimal_digits body of
           None \<Rightarrow> None
         | Some ds \<Rightarrow> Some (if neg then - int (nat_of_digits ds) else int (nat_of_digits ds)))"

fun digits_of :: "nat \<Rightarrow> string" where
  "digits_of n =
     (if n < 10 then [char_of (48 + n)] else digits_of (n div 10) @ [char_of (48 + n mod 10)])"

declare digits_of.simps [simp del]

definition py_str_int :: "int \<Rightarrow> string" where
  \<comment> \<open>\<open>str(n)\<close>, as an f-string prints an integer.\<close>
  "py_str_int n = (if n < 0 then CHR ''-'' # digits_of (nat (- n)) else digits_of (nat n))"

definition lower_char :: "char \<Rightarrow> char" where
  "lower_char c =
     (let n = (of_char c :: nat) in if 65 \<le> n \<and> n \<le> 90 then char_of (n + 32) else c)"

definition lower :: "string \<Rightarrow> string" where
  "lower s = map lower_char s"

definition startswith :: "string \<Rightarrow> string \<Rightarrow> bool" where
  "startswith s p = (take (length p) s = p)"

definition endswith :: "string \<Rightarrow> string \<Rightarrow> bool" where
  "endswith s p = (length p \<le> length s \<and> drop (length s - length p) s = p)"

section \<open>The persisted state\<close>

text \<open>
  What reading a dataset as CSV does: \<open>csv.reader\<close> yields the rows of
  \<open>csv_rows\<close> one by one and then either stops or raises \<open>csv_error\<close> (a decoding
  error further down the file, a field over the size limit). A file that cannot be
  opened has no rows and an error. The digest and the size stand for what
  \<open>get_file_hash\<close> and \<open>get_file_size\<close> compute.
\<close>

record dataset =
  csv_rows :: "string list list"
  csv_error :: "py_error option"
  digest :: string
  size_bytes :: nat

record version_dir =
  metadata_json :: "json file_state"
  datasets :: "(string \<times> dataset) list"

datatype entry = PlainFile | Dir version_dir

datatype path =
    MetadataPath string | DatasetPath string | CurrentVersionPath | RollbackLogPath | IndexPath

text \<open>
  \<open>versions_dir\<close> is \<open>os.listdir\<close> of the versions directory in the order the
  system lists it, \<open>None\<close> when the directory does not exist. A write to a path of
  \<open>write_fails\<close> raises the exception given there and leaves the file as it was.
  \<open>logger\<close> is what the logger has received.
\<close>

record state =
  versions_dir :: "(string \<times> entry) list option"
  current_version_file :: "string file_state"
  rollback_log_file :: "json file_state"
  index_file :: "json file_state"
  write_fails :: "(path \<times> py_error) list"
  logger :: "(level \<times> string) list"

text \<open>
  The options of the configuration file that the operations read. The file itself is
  not part of the sources, so its values are parameters. The four paths only matter
  for the text of messages. The three options \<open>compare_row_count\<close>,
  \<open>compare_columns\<close> and \<open>compare_data_types\<close> carry the prefix \<open>do_\<close> here.
\<close>

record config =
  versions_dir_path :: string
  logs_dir_path :: string
  index_file_path :: string
  current_version_file_path :: string
  backup_before_rollback :: bool
  include_row_count :: bool
  include_columns :: bool
  include_data_types :: bool
  include_file_hash :: bool
  include_file_size :: bool
  do_compare_row_count :: bool
  do_compare_columns :: bool
  do_compare_data_types :: bool
  include_sample_data :: bool
  sample_size :: int

definition log_to :: "level \<Rightarrow> string \<Rightarrow> state \<Rightarrow> state" where
  "log_to lvl msg s = s\<lparr>logger := logger s @ [(lvl, msg)]\<rparr>"

definition entries :: "state \<Rightarrow> (string \<times> entry) list" where
  "entries s = (case versions_dir s of None \<Rightarrow> [] | Some es \<Rightarrow> es)"

text \<open>
  The metadata file of a version name, \<open>versions_dir/name/metadata.json\<close>. Names are
  looked up as entries of the versions directory: a name with a path separator in it
  is outside this model.
\<close>

definition metadata_file :: "state \<Rightarrow> string \<Rightarrow> json file_state" where
  "metadata_file s name =
     (case map_of (entries s) name of
        Some (Dir d) \<Rightarrow> metadata_json d
      | _ \<Rightarrow> Missing)"

fun set_metadata_entries ::
  "string \<Rightarrow> json \<Rightarrow> (string \<times> entry) list \<Rightarrow> (string \<times> entry) list" where
  "set_metadata_entries name j [] = []"
| "set_metadata_entries name j ((n, e) # es) =
     (if n = name
      then (case e of
              Dir d \<Rightarrow> (n, Dir (d\<lparr>metadata_json := Content j\<rparr>)) # es
            | PlainFile \<Rightarrow> (n, e) # es)
      else (n, e) # set_metadata_entries name j es)"

definition write_error :: "state \<Rightarrow> path \<Rightarrow> py_error option" where
  "write_error s p = map_of (write_fails s) p"

definition os_path_join :: "string \<Rightarrow> string \<Rightarrow> string" where
  "os_path_join a b =
     (if startswith b ''/'' then b
      else if a = [] \<or> endswith a ''/'' then a @ b
      else a @ ''/'' @ b)"

definition metadata_path :: "config \<Rightarrow> string \<Rightarrow> string" where
  "metadata_path cfg name =
     os_path_join (os_path_join (versions_dir_path cfg) name) ''metadata.json''"

definition rollback_log_path :: "config \<Rightarrow> string" where
  "rollback_log_path cfg = os_path_join (logs_dir_path cfg) ''rollback_history.json''"

section \<open>Python's operations on parsed JSON\<close>

text \<open>
  The source applies \<open>in\<close>, indexing, item assignment, \<open>append\<close> and \<open>get\<close> to
  whatever \<open>json.load\<close> returned. On a value of the wrong type they raise, and the
  model returns that exception.
\<close>

fun has_substring :: "string \<Rightarrow> string \<Rightarrow> bool" where
  "has_substring k [] = (k = [])"
| "has_substring k (c # cs) = (startswith (c # cs) k \<or> has_substring k cs)"

definition py_in :: "string \<Rightarrow> json \<Rightarrow> py_error + bool" where
  \<comment> \<open>\<open>k in x\<close>\<close>
  "py_in k x =
     (case x of
        JObj kvs \<Rightarrow> Inr (map_of kvs k \<noteq> None)
      | JArr xs \<Rightarrow> Inr (JStr k \<in> set xs)
      | JStr s \<Rightarrow> Inr (has_substring k s)
      | _ \<Rightarrow> Inl (Exc TypeError []))"

definition py_getitem :: "string \<Rightarrow> json \<Rightarrow> py_error + json" where
  \<comment> \<open>\<open>x[k]\<close>\<close>
  "py_getitem k x =
     (case x of
        JObj kvs \<Rightarrow> (case map_of kvs k of None \<Rightarrow> Inl (Exc KeyError []) | Some v \<Rightarrow> Inr v)
      | _ \<Rightarrow> Inl (Exc TypeError []))"

definition py_setitem :: "string \<Rightarrow> json \<Rightarrow> json \<Rightarrow> py_error + json" where
  \<comment> \<open>\<open>x[k] = v\<close>\<close>
  "py_setitem k v x =
     (case x of
        JObj kvs \<Rightarrow> Inr (JObj (AList.update k v kvs))
      | _ \<Rightarrow> Inl (Exc TypeError []))"

definition py_append :: "json \<Rightarrow> json \<Rightarrow> py_error + json" where
  \<comment> \<open>\<open>x.append(v)\<close>\<close>
  "py_append v x =
     (case x of
        JArr xs \<Rightarrow> Inr (JArr (xs @ [v]))
      | _ \<Rightarrow> Inl (Exc AttributeError []))"

definition py_get :: "string \<Rightarrow> json \<Rightarrow> json \<Rightarrow> py_error + json" where
  \<comment> \<open>\<open>x.get(k, default)\<close>\<close>
  "py_get k dflt x =
     (case x of
        JObj kvs \<Rightarrow> Inr (case map_of kvs k of None \<Rightarrow> dflt | Some v \<Rightarrow> v)
      | _ \<Rightarrow> Inl (Exc AttributeError []))"

definition load_json :: "string \<Rightarrow> json file_state \<Rightarrow> py_error + json" where
  "load_json file_path f =
     (case f of
        Missing \<Rightarrow> Inl (Exc FileNotFoundError (''JSON file not found: '' @ file_path))
      | Unreadable e \<Rightarrow> Inl e
      | Content j \<Rightarrow> Inr j)"

section \<open>The version store: listing and the current-version marker\<close>

definition version_number :: "string \<Rightarrow> int option" where
  \<comment> \<open>\<open>int(item[1:])\<close>\<close>
  "version_number item = py_int (drop 1 item)"

definition is_version_entry :: "string \<times> entry \<Rightarrow> bool" where
  \<comment> \<open>the test of the loop over \<open>os.listdir\<close>, in \<open>get_all_versions\<close> and in
      \<open>get_next_version_number\<close>\<close>
  "is_version_entry ne =
     (startswith (fst ne) ''v''
      \<and> (case snd ne of Dir d \<Rightarrow> True | PlainFile \<Rightarrow> False)
      \<and> version_number (fst ne) \<noteq> None)"

definition version_key :: "string \<Rightarrow> int" where
  \<comment> \<open>the sort key \<open>int(x[1:])\<close>; every name that is sorted has passed the conversion
      in the loop, so the second case is never reached\<close>
  "version_key x = (case version_number x of Some n \<Rightarrow> n | None \<Rightarrow> 0)"

definition get_all_versions :: "state \<Rightarrow> string list" where
  "get_all_versions s =
     (case versions_dir s of
        None \<Rightarrow> []
      | Some es \<Rightarrow> sort_key version_key (map fst (filter is_version_entry es)))"

definition get_current_version :: "state \<Rightarrow> py_error + string option" where
  "get_current_version s =
     (case current_version_file s of
        Missing \<Rightarrow> Inr None
      | Unreadable e \<Rightarrow> Inl e
      | Content c \<Rightarrow> Inr (Some (strip (universal_newlines c))))"

definition set_current_version :: "string \<Rightarrow> state \<Rightarrow> (py_error + unit) \<times> state" where
  "set_current_version version_name s =
     (case write_error s CurrentVersionPath of
        Some e \<Rightarrow> (Inl e, s)
      | None \<Rightarrow>
          (Inr (),
           log_to INFO (''Set current version to '' @ version_name)
             (s\<lparr>current_version_file := Content version_name\<rparr>)))"

definition str_opt :: "string option \<Rightarrow> string" where
  \<comment> \<open>how an f-string prints an optional version name\<close>
  "str_opt v = (case v of None \<Rightarrow> ''None'' | Some x \<Rightarrow> x)"

definition json_opt :: "string option \<Rightarrow> json" where
  "json_opt v = (case v of None \<Rightarrow> JNull | Some x \<Rightarrow> JStr x)"

section \<open>The rollback manager\<close>

definition backup_info :: "string \<Rightarrow> string \<Rightarrow> json" where
  "backup_info ts version_name =
     JObj [(''backup_timestamp'', JStr ts),
           (''backed_up_version'', JStr version_name),
           (''reason'', JStr ''Pre-rollback backup'')]"

definition annotate_backup :: "json \<Rightarrow> json \<Rightarrow> py_error + json" where
  \<comment> \<open>the three statements of \<open>_create_rollback_backup\<close> on the loaded metadata; the
      list is appended to in place, so the result holds the longer list under the key\<close>
  "annotate_backup info metadata =
     (case py_in ''backups'' metadata of
        Inl e \<Rightarrow> Inl e
      | Inr present \<Rightarrow>
          (case (if present then Inr metadata
                 else py_setitem ''backups'' (JArr []) metadata) of
             Inl e \<Rightarrow> Inl e
           | Inr m \<Rightarrow>
               (case py_getitem ''backups'' m of
                  Inl e \<Rightarrow> Inl e
                | Inr bs \<Rightarrow>
                    (case py_append info bs of
                       Inl e \<Rightarrow> Inl e
                     | Inr bs' \<Rightarrow> py_setitem ''backups'' bs' m))))"

definition save_metadata :: "string \<Rightarrow> json \<Rightarrow> state \<Rightarrow> (py_error + unit) \<times> state" where
  \<comment> \<open>\<open>save_json\<close> to the metadata file of a version directory that exists\<close>
  "save_metadata name j s =
     (case write_error s (MetadataPath name) of
        Some e \<Rightarrow> (Inl e, s)
      | None \<Rightarrow>
          (Inr (), s\<lparr>versions_dir := map_option (set_metadata_entries name j) (versions_dir s)\<rparr>))"

definition create_rollback_backup ::
  "config \<Rightarrow> string \<Rightarrow> string option \<Rightarrow> state \<Rightarrow> state" where
  "create_rollback_backup cfg ts version_name s =
     (let failed = (\<lambda>e s'. log_to WARNING (''Failed to create backup: '' @ exc_str e) s')
      in case version_name of
           None \<Rightarrow> failed (Exc TypeError []) s
             \<comment> \<open>\<open>os.path.join\<close> refuses \<open>None\<close>, inside the \<open>try\<close>\<close>
         | Some name \<Rightarrow>
             if exists_file (metadata_file s name)
             then (case load_json (metadata_path cfg name) (metadata_file s name) of
                     Inl e \<Rightarrow> failed e s
                   | Inr metadata \<Rightarrow>
                       (case annotate_backup (backup_info ts name) metadata of
                          Inl e \<Rightarrow> failed e s
                        | Inr metadata' \<Rightarrow>
                            (case save_metadata name metadata' s of
                               (Inl e, s') \<Rightarrow> failed e s'
                             | (Inr u, s') \<Rightarrow> log_to INFO (''Created backup for '' @ name) s')))
             else log_to INFO (''Created backup for '' @ name) s)"

definition rollback_event :: "string \<Rightarrow> string option \<Rightarrow> string \<Rightarrow> json" where
  "rollback_event ts from_version to_version =
     JObj [(''timestamp'', JStr ts),
           (''from_version'', json_opt from_version),
           (''to_version'', JStr to_version)]"

definition append_event :: "json \<Rightarrow> json \<Rightarrow> py_error + json" where
  \<comment> \<open>\<open>rollback_history["rollbacks"].append(rollback_event)\<close>, in place\<close>
  "append_event ev history =
     (case py_getitem ''rollbacks'' history of
        Inl e \<Rightarrow> Inl e
      | Inr rs \<Rightarrow>
          (case py_append ev rs of
             Inl e \<Rightarrow> Inl e
           | Inr rs' \<Rightarrow> py_setitem ''rollbacks'' rs' history))"

definition log_rollback_event ::
  "config \<Rightarrow> string \<Rightarrow> string option \<Rightarrow> string \<Rightarrow> state \<Rightarrow> state" where
  "log_rollback_event cfg ts from_version to_version s =
     (let failed = (\<lambda>e. log_to WARNING (''Failed to log rollback event: '' @ exc_str e) s);
          loaded = (if exists_file (rollback_log_file s)
                    then load_json (rollback_log_path cfg) (rollback_log_file s)
                    else Inr (JObj [(''rollbacks'', JArr [])]))
      in case loaded of
           Inl e \<Rightarrow> failed e
         | Inr rollback_history \<Rightarrow>
             (case append_event (rollback_event ts from_version to_version) rollback_history of
                Inl e \<Rightarrow> failed e
              | Inr history' \<Rightarrow>
                  (case write_error s RollbackLogPath of
                     Some e \<Rightarrow> failed e
                   | None \<Rightarrow>
                       log_to INFO (''Logged rollback event: '' @ str_opt from_version
                                 @ '' -> '' @ to_version)
                         (s\<lparr>rollback_log_file := Content history'\<rparr>))))"

text \<open>
  \<open>rollback_to_version\<close>. The two time stamps are what \<open>get_timestamp\<close> returns in
  the backup step and in the audit step. The result is the exception raised or the
  value returned, with the state the call leaves.
\<close>

definition rollback_to_version ::
  "config \<Rightarrow> string \<Rightarrow> string \<Rightarrow> string \<Rightarrow> bool \<Rightarrow> state \<Rightarrow> (py_error + bool) \<times> state" where
  "rollback_to_version cfg ts_backup ts_event target_version create_backup s =
     (if target_version \<notin> set (get_all_versions s)
      then (let msg = ''Target version '' @ [CHR 0x27] @ target_version @ [CHR 0x27]
                      @ '' does not exist''
            in (Inl (Exc FileNotFoundError msg), log_to ERROR msg s))
      else case get_current_version s of
             Inl e \<Rightarrow> (Inl e, s)
           | Inr current_version \<Rightarrow>
               if current_version = Some target_version
               then (let msg = ''Already at version '' @ target_version
                     in (Inl (Exc ValueError msg), log_to WARNING msg s))
               else
                 (let s1 = log_to INFO (''Starting rollback from '' @ str_opt current_version
                                     @ '' to '' @ target_version) s;
                      s2 = (if create_backup \<and> backup_before_rollback cfg
                            then create_rollback_backup cfg ts_backup current_version s1
                            else s1)
                  in case set_current_version target_version s2 of
                       (Inl e, s3) \<Rightarrow> (Inl e, s3)
                     | (Inr u, s3) \<Rightarrow>
                         (Inr True,
                          log_to INFO (''Successfully rolled back to '' @ target_version)
                            (log_rollback_event cfg ts_event current_version
                               target_version s3))))"

definition get_rollback_history :: "config \<Rightarrow> state \<Rightarrow> json \<times> state" where
  "get_rollback_history cfg s =
     (let failed = (\<lambda>e. (JArr [],
                         log_to ERROR (''Failed to read rollback history: '' @ exc_str e) s))
      in if exists_file (rollback_log_file s)
         then (case load_json (rollback_log_path cfg) (rollback_log_file s) of
                 Inl e \<Rightarrow> failed e
               | Inr history \<Rightarrow>
                   (case py_get ''rollbacks'' (JArr []) history of
                      Inl e \<Rightarrow> failed e
                    | Inr rollbacks \<Rightarrow> (rollbacks, s)))
         else (JArr [], s))"

section \<open>Notions used to state the properties\<close>

text \<open>
  The audit step of a rollback can append its record when the rollback log is absent,
  or parses as an object whose \<open>rollbacks\<close> is a list, and the log can be written.
\<close>

definition audit_step_ok :: "state \<Rightarrow> bool" where
  "audit_step_ok s =
     (write_error s RollbackLogPath = None \<and>
      (case rollback_log_file s of
         Missing \<Rightarrow> True
       | Unreadable e \<Rightarrow> False
       | Content h \<Rightarrow>
           (case h of
              JObj kvs \<Rightarrow> (case map_of kvs ''rollbacks'' of Some (JArr evs) \<Rightarrow> True | _ \<Rightarrow> False)
            | _ \<Rightarrow> False)))"


text \<open>
  The backup step can annotate version \<open>a\<close> when its metadata file parses as an object
  whose \<open>backups\<close> is absent or a list, and the file can be written.
\<close>

definition backup_step_ok :: "state \<Rightarrow> string \<Rightarrow> bool" where
  "backup_step_ok s a =
     (write_error s (MetadataPath a) = None \<and>
      (case metadata_file s a of
         Content (JObj kvs) \<Rightarrow>
           (case map_of kvs ''backups'' of None \<Rightarrow> True | Some (JArr bs) \<Rightarrow> True | Some _ \<Rightarrow> False)
       | _ \<Rightarrow> False))"

section \<open>A store with two versions\<close>

definition ex_config :: config where
  "ex_config = \<lparr>versions_dir_path = ''data/versions'', logs_dir_path = ''logs'',
     index_file_path = ''data/versions_index.json'',
     current_version_file_path = ''data/current_version.txt'',
     backup_before_rollback = True,
     include_row_count = True, include_columns = True, include_data_types = True,
     include_file_hash = True, include_file_size = True,
     do_compare_row_count = True, do_compare_columns = True, do_compare_data_types = True,
     include_sample_data = False, sample_size = 5\<rparr>"

definition ex_metadata :: "string \<Rightarrow> json" where
  "ex_metadata v = JObj [(''version'', JStr v), (''created_at'', JStr ''2024-01-01T00:00:00''),
     (''source_file'', JStr ''data/processed/clean.csv''), (''row_count'', JInt 2),
     (''columns'', JArr [JStr ''id'', JStr ''name'']), (''column_count'', JInt 2),
     (''data_types'', JObj [(''id'', JStr ''integer''), (''name'', JStr ''string'')])]"

definition ex_dataset :: dataset where
  "ex_dataset = \<lparr>csv_rows = [[''id'', ''name''], [''1'', ''ann''], [''2'', ''bob'']],
     csv_error = None, digest = ''9f86d081'', size_bytes = 21\<rparr>"

definition ex_state :: state where
  "ex_state = \<lparr>versions_dir = Some
       [(''v2'', Dir \<lparr>metadata_json = Content (ex_metadata ''v2''),
                       datasets = [(''clean.csv'', ex_dataset)]\<rparr>),
        (''v1'', Dir \<lparr>metadata_json = Content (ex_metadata ''v1''),
                       datasets = [(''clean.csv'', ex_dataset)]\<rparr>)],
     current_version_file = Content ''v2'',
     rollback_log_file = Missing,
     index_file = Missing,
     write_fails = [],
     logger = []\<rparr>"


text \<open>Whether a value is a Python list.\<close>

fun is_list :: "json \<Rightarrow> bool" where
  "is_list (JArr xs) = True"
| "is_list _ = False"


section \<open>The metadata extractor\<close>

text \<open>
  \<open>float(s)\<close> on ASCII: the white space of C is skipped, underscores may stand between two
  digits, and what remains is a signed decimal with an optional exponent, or one of
  \<open>inf\<close>, \<open>infinity\<close> and \<open>nan\<close> in any case.
\<close>

fun drop_underscores :: "char \<Rightarrow> string \<Rightarrow> string option" where
  "drop_underscores prev [] = (if prev = CHR ''_'' then None else Some [])"
| "drop_underscores prev (c # cs) =
     (if c = CHR ''_'' then (if is_digit prev then drop_underscores c cs else None)
      else if prev = CHR ''_'' \<and> \<not> is_digit c then None
      else map_option ((#) c) (drop_underscores c cs))"

definition exponent_ok :: "string \<Rightarrow> bool" where
  "exponent_ok r =
     (case r of
        [] \<Rightarrow> True
      | c # r' \<Rightarrow> (c = CHR ''e'' \<or> c = CHR ''E'')
                  \<and> (let ds = snd (split_sign r') in ds \<noteq> [] \<and> list_all is_digit ds))"

definition decimal_ok :: "string \<Rightarrow> bool" where
  "decimal_ok b =
     (let ip = takeWhile is_digit b;
          r1 = dropWhile is_digit b;
          fp = (case r1 of [] \<Rightarrow> [] | c # r \<Rightarrow> if c = CHR ''.'' then takeWhile is_digit r else []);
          r2 = (case r1 of [] \<Rightarrow> [] | c # r \<Rightarrow> if c = CHR ''.'' then dropWhile is_digit r else r1)
      in \<not> (ip = [] \<and> fp = []) \<and> exponent_ok r2)"

definition py_float_ok :: "string \<Rightarrow> bool" where
  \<comment> \<open>whether \<open>float(s)\<close> returns; otherwise it raises ValueError\<close>
  "py_float_ok s =
     (case drop_underscores (CHR 0x00) (c_strip s) of
        None \<Rightarrow> False
      | Some t \<Rightarrow>
          (let body = snd (split_sign t)
           in lower body \<in> set [''inf'', ''infinity'', ''nan''] \<or> decimal_ok body))"

definition is_integer :: "string \<Rightarrow> bool" where
  "is_integer v = (py_int v \<noteq> None)"

definition is_float :: "string \<Rightarrow> bool" where
  "is_float v = (if py_float_ok v then CHR ''.'' \<in> set v else False)"

definition is_boolean :: "string \<Rightarrow> bool" where
  "is_boolean v = (lower v \<in> set [''true'', ''false'', ''yes'', ''no'', ''1'', ''0''])"

text \<open>
  A row of \<open>csv.DictReader\<close> is \<open>dict(zip(fieldnames, row))\<close>, then the cells beyond
  the header as a list under the key \<open>None\<close> (the \<open>restkey\<close>), or \<open>None\<close> (the
  \<open>restval\<close>) for the names beyond the row.
\<close>

datatype cell = Cell string | Restval | Restkey "string list"

definition dict_row :: "string list \<Rightarrow> string list \<Rightarrow> (string option \<times> cell) list" where
  "dict_row fieldnames row =
     (let d = foldl (\<lambda>d (k, v). AList.update (Some k) (Cell v) d) [] (zip fieldnames row)
      in if length fieldnames < length row
         then AList.update None (Restkey (drop (length fieldnames) row)) d
         else foldl (\<lambda>d k. AList.update (Some k) Restval d) d (drop (length row) fieldnames))"

text \<open>The classes of \<open>types_found\<close>; the value is \<open>None\<close> for the \<open>restval\<close>.\<close>

datatype value_class = Null | Integer | Float | Boolean | String

definition classify :: "string option \<Rightarrow> value_class" where
  "classify v =
     (case v of
        None \<Rightarrow> Null
      | Some x \<Rightarrow>
          if x = [] \<or> strip x = [] then Null
          else if is_integer x then Integer
          else if is_float x then Float
          else if is_boolean x then Boolean
          else String)"

definition column_type :: "value_class set \<Rightarrow> string" where
  "column_type found =
     (if Float \<in> found then ''float''
      else if Integer \<in> found then ''integer''
      else if Boolean \<in> found then ''boolean''
      else ''string'')"

text \<open>
  What the one hundred calls \<open>next(reader, None)\<close> of \<open>_infer_data_types\<close> collect:
  the first hundred rows after the header that are not blank, as dicts. The exception
  of the file is raised when the header cannot be read, or when fewer than a hundred
  such rows come before it.
\<close>

definition sample_rows :: "dataset \<Rightarrow> py_error + (string option \<times> cell) list list" where
  "sample_rows d =
     (case csv_rows d of
        [] \<Rightarrow> (case csv_error d of Some e \<Rightarrow> Inl e | None \<Rightarrow> Inr [])
      | fieldnames # rest \<Rightarrow>
          (let filled = filter (\<lambda>r. r \<noteq> []) rest
           in case csv_error d of
                None \<Rightarrow> Inr (map (dict_row fieldnames) (take 100 filled))
              | Some e \<Rightarrow> if length filled < 100 then Inl e
                          else Inr (map (dict_row fieldnames) (take 100 filled))))"

text \<open>
  The classes found in the samples under a column name. A list of extra cells is
  stored under the key \<open>None\<close> only, never under a name.
\<close>

definition types_found :: "(string option \<times> cell) list list \<Rightarrow> string \<Rightarrow> value_class set" where
  "types_found samples col =
     set (List.map_filter
            (\<lambda>row. case map_of row (Some col) of
                      None \<Rightarrow> None
                    | Some (Cell x) \<Rightarrow> Some (classify (Some x))
                    | Some Restval \<Rightarrow> Some (classify None)
                    | Some (Restkey xs) \<Rightarrow> None) samples)"

definition infer_data_types ::
  "dataset \<Rightarrow> string list \<Rightarrow> state \<Rightarrow> (string \<times> string) list \<times> state" where
  "infer_data_types d columns s =
     (let data_types = foldl (\<lambda>m col. AList.update col ''string'' m) [] columns
      in case sample_rows d of
           Inl e \<Rightarrow> (data_types, log_to WARNING (''Error inferring data types: '' @ exc_str e) s)
         | Inr samples \<Rightarrow>
             (foldl (\<lambda>m col. AList.update col (column_type (types_found samples col)) m)
                data_types columns, s))"

definition analyze_csv :: "dataset \<Rightarrow> state \<Rightarrow> (nat \<times> string list) \<times> state" where
  "analyze_csv d s =
     (let failed = (\<lambda>e columns.
            ((0, columns), log_to WARNING (''Error analyzing CSV: '' @ exc_str e) s))
      in case csv_rows d of
           [] \<Rightarrow> (case csv_error d of
                    Some e \<Rightarrow> failed e []
                  | None \<Rightarrow> ((0, []), log_to DEBUG ''CSV analysis: 0 rows, 0 columns'' s))
         | columns # rest \<Rightarrow>
             (case csv_error d of
                Some e \<Rightarrow> failed e columns
              | None \<Rightarrow>
                  ((length rest, columns),
                   log_to DEBUG (''CSV analysis: '' @ py_str_int (int (length rest)) @ '' rows, ''
                                 @ py_str_int (int (length columns)) @ '' columns'') s)))"

section \<open>The version store: creating a version\<close>

definition existing_versions :: "(string \<times> entry) list \<Rightarrow> int list" where
  \<comment> \<open>the list built by the loop of \<open>get_next_version_number\<close>\<close>
  "existing_versions es =
     List.map_filter
       (\<lambda>ne. if startswith (fst ne) ''v'' \<and> (case snd ne of Dir d \<Rightarrow> True | PlainFile \<Rightarrow> False)
             then version_number (fst ne) else None) es"

definition get_next_version_number :: "state \<Rightarrow> int" where
  "get_next_version_number s =
     (case versions_dir s of
        None \<Rightarrow> 1
      | Some es \<Rightarrow>
          if existing_versions es = [] then 1 else Max (set (existing_versions es)) + 1)"

definition basename :: "string \<Rightarrow> string" where
  "basename p = rev (takeWhile (\<lambda>c. c \<noteq> CHR ''/'') (rev p))"

definition version_path :: "config \<Rightarrow> string \<Rightarrow> string" where
  "version_path cfg name = os_path_join (versions_dir_path cfg) name"

text \<open>
  \<open>ensure_directory\<close> on the directory of a version: nothing to do where it exists,
  an exception where a plain file has the name, and a new empty directory otherwise
  (with the versions directory itself, if that was missing).
\<close>

definition ensure_version_dir :: "string \<Rightarrow> state \<Rightarrow> (py_error + unit) \<times> state" where
  "ensure_version_dir name s =
     (case map_of (entries s) name of
        Some (Dir d) \<Rightarrow> (Inr (), s)
      | Some PlainFile \<Rightarrow> (Inl (Exc OSError ''File exists''), s)
      | None \<Rightarrow>
          (Inr (), s\<lparr>versions_dir :=
                       Some (entries s @ [(name, Dir \<lparr>metadata_json = Missing, datasets = []\<rparr>)])\<rparr>))"

fun add_dataset_entries ::
  "string \<Rightarrow> string \<Rightarrow> dataset \<Rightarrow> (string \<times> entry) list \<Rightarrow> (string \<times> entry) list" where
  "add_dataset_entries name fname d [] = []"
| "add_dataset_entries name fname d ((n, e) # es) =
     (if n = name
      then (case e of
              Dir vd \<Rightarrow> (n, Dir (vd\<lparr>datasets := AList.update fname d (datasets vd)\<rparr>)) # es
            | PlainFile \<Rightarrow> (n, e) # es)
      else (n, e) # add_dataset_entries name fname d es)"

definition copy_dataset :: "string \<Rightarrow> string \<Rightarrow> dataset \<Rightarrow> state \<Rightarrow> (py_error + unit) \<times> state" where
  \<comment> \<open>\<open>shutil.copy2\<close> of the input file into the directory of the version\<close>
  "copy_dataset name fname d s =
     (case write_error s (DatasetPath name) of
        Some e \<Rightarrow> (Inl e, s)
      | None \<Rightarrow>
          (Inr (), s\<lparr>versions_dir := map_option (add_dataset_entries name fname d) (versions_dir s)\<rparr>))"

definition generate_metadata ::
  "config \<Rightarrow> string \<Rightarrow> string \<Rightarrow> string \<Rightarrow> dataset \<Rightarrow> string \<Rightarrow> real option \<Rightarrow> state
     \<Rightarrow> json \<times> state" where
  "generate_metadata cfg ts version_name dataset_path d source_file quality_score s =
     (let m0 = [(''version'', JStr version_name), (''created_at'', JStr ts),
                (''source_file'', JStr source_file)];
          (m1, s1) =
            (if endswith dataset_path ''.csv''
             then (let ((row_count, columns), sa) = analyze_csv d s;
                       ma = (if include_row_count cfg
                             then m0 @ [(''row_count'', JInt (int row_count))] else m0);
                       mb = (if include_columns cfg
                             then ma @ [(''columns'', JArr (map JStr columns)),
                                        (''column_count'', JInt (int (length columns)))]
                             else ma)
                   in if include_data_types cfg
                      then (let (data_types, sb) = infer_data_types d columns sa
                            in (mb @ [(''data_types'', JObj (map (\<lambda>(k, v). (k, JStr v)) data_types))],
                                sb))
                      else (mb, sa))
             else (m0, s));
          m2 = (if include_file_hash cfg then m1 @ [(''file_hash'', JStr (digest d))] else m1);
          m3 = (if include_file_size cfg
                then m2 @ [(''file_size_bytes'', JInt (int (size_bytes d)))] else m2);
          m4 = (case quality_score of
                  None \<Rightarrow> m3
                | Some q \<Rightarrow> m3 @ [(''quality_score'', JFloat q)])
      in (JObj m4, s1))"

definition json_get :: "string \<Rightarrow> json \<Rightarrow> json" where
  \<comment> \<open>\<open>metadata.get(k)\<close> on the dict just built: \<open>None\<close> where the key is absent\<close>
  "json_get k m = (case m of JObj kvs \<Rightarrow> (case map_of kvs k of None \<Rightarrow> JNull | Some v \<Rightarrow> v)
                           | _ \<Rightarrow> JNull)"

definition update_index ::
  "config \<Rightarrow> string \<Rightarrow> string \<Rightarrow> string \<Rightarrow> json \<Rightarrow> state \<Rightarrow> (py_error + unit) \<times> state" where
  "update_index cfg ts_created ts_updated version_name metadata s =
     (let loaded = (if exists_file (index_file s)
                    then load_json (index_file_path cfg) (index_file s)
                    else Inr (JObj [(''versions'', JArr []), (''created_at'', JStr ts_created)]));
          version_entry = JObj [(''version'', JStr version_name),
                                (''created_at'', json_get ''created_at'' metadata),
                                (''row_count'', json_get ''row_count'' metadata),
                                (''column_count'', json_get ''column_count'' metadata),
                                (''quality_score'', json_get ''quality_score'' metadata),
                                (''file_hash'', json_get ''file_hash'' metadata)]
      in case loaded of
           Inl e \<Rightarrow> (Inl e, s)
         | Inr index \<Rightarrow>
             (case py_getitem ''versions'' index of
                Inl e \<Rightarrow> (Inl e, s)
              | Inr vs \<Rightarrow>
                  (case py_append version_entry vs of
                     Inl e \<Rightarrow> (Inl e, s)
                   | Inr vs' \<Rightarrow>
                       (case py_setitem ''versions'' vs' index of
                          Inl e \<Rightarrow> (Inl e, s)
                        | Inr index1 \<Rightarrow>
                            (case py_setitem ''last_updated'' (JStr ts_updated) index1 of
                               Inl e \<Rightarrow> (Inl e, s)
                             | Inr index2 \<Rightarrow>
                                 (case write_error s IndexPath of
                                    Some e \<Rightarrow> (Inl e, s)
                                  | None \<Rightarrow>
                                      (Inr (),
                                       log_to INFO (''Updated versions index with '' @ version_name)
                                         (s\<lparr>index_file := Content index2\<rparr>))))))))"

text \<open>
  \<open>create_version\<close>. The input file is \<open>None\<close> where the path does not exist. The
  three time stamps are those of the metadata, of a new index and of the index update.
  Each step that raises leaves what the steps before it wrote.
\<close>

definition create_version ::
  "config \<Rightarrow> string \<Rightarrow> string \<Rightarrow> string \<Rightarrow> string \<Rightarrow> dataset option \<Rightarrow> real option \<Rightarrow> state
     \<Rightarrow> (py_error + string) \<times> state" where
  "create_version cfg ts_meta ts_created ts_updated input_file input quality_score s =
     (case input of
        None \<Rightarrow> (let msg = ''Input file not found: '' @ input_file
                 in (Inl (Exc FileNotFoundError msg), log_to ERROR msg s))
      | Some d \<Rightarrow>
          if (case quality_score of None \<Rightarrow> False | Some q \<Rightarrow> \<not> (0 \<le> q \<and> q \<le> 100))
          then (Inl (Exc ValueError ''Quality score must be between 0 and 100''),
                log_to ERROR (''Invalid quality score'') s)
          else
            (let version_name = ''v'' @ py_str_int (get_next_version_number s);
                 dataset_filename = basename input_file;
                 versioned_dataset_path = os_path_join (version_path cfg version_name) dataset_filename
             in case ensure_version_dir version_name s of
                  (Inl e, s1) \<Rightarrow> (Inl e, s1)
                | (Inr u, s1) \<Rightarrow>
                    (case copy_dataset version_name dataset_filename d s1 of
                       (Inl e, s2) \<Rightarrow> (Inl e, s2)
                     | (Inr u, s2) \<Rightarrow>
                         (let s3 = log_to INFO (''Copied dataset to '' @ versioned_dataset_path) s2;
                              (metadata, s4) = generate_metadata cfg ts_meta version_name
                                 versioned_dataset_path d input_file quality_score s3
                          in case save_metadata version_name metadata s4 of
                               (Inl e, s5) \<Rightarrow> (Inl e, s5)
                             | (Inr u, s5) \<Rightarrow>
                                 (let s6 = log_to INFO (''Created metadata for '' @ version_name) s5
                                  in case update_index cfg ts_created ts_updated version_name
                                            metadata s6 of
                                       (Inl e, s7) \<Rightarrow> (Inl e, s7)
                                     | (Inr u, s7) \<Rightarrow>
                                         (case set_current_version version_name s7 of
                                            (Inl e, s8) \<Rightarrow> (Inl e, s8)
                                          | (Inr u, s8) \<Rightarrow>
                                              (Inr version_name,
                                               log_to INFO (''Version '' @ [CHR 0x27] @ version_name
                                                            @ [CHR 0x27] @ '' created successfully'')
                                                 s8)))))))"


section \<open>The comparator\<close>








text \<open>
  \<open>round(x, 2)\<close>, with the arithmetic of floats taken as exact: the nearest multiple
  of a hundredth, the even one at a tie.
\<close>

definition round_half_even :: "real \<Rightarrow> int" where
  "round_half_even x =
     (let f = \<lfloor>x\<rfloor>; d = x - of_int f
      in if d < 1 / 2 then f else if 1 / 2 < d then f + 1 else if even f then f else f + 1)"

definition round2 :: "real \<Rightarrow> real" where
  "round2 x = of_int (round_half_even (x * 100)) / 100"















text \<open>The store with two versions after the directory of v1 was removed by hand.\<close>

definition ex_v1_removed :: state where
  "ex_v1_removed = ex_state\<lparr>versions_dir := Some
       [(''v2'', Dir \<lparr>metadata_json = Content (ex_metadata ''v2''),
                       datasets = [(''clean.csv'', ex_dataset)]\<rparr>)]\<rparr>"

text \<open>A store in which no version was ever created.\<close>

definition ex_empty :: state where
  "ex_empty = \<lparr>versions_dir = Some [], current_version_file = Missing,
     rollback_log_file = Missing, index_file = Missing, write_fails = [], logger = []\<rparr>"

text \<open>The cell of a row in column \<open>i\<close>, absent where the row is too short.\<close>

definition cell_at :: "nat \<Rightarrow> string list \<Rightarrow> string option" where
  "cell_at i row = (if i < length row then Some (row ! i) else None)"

text \<open>A file with the one column \<open>c\<close> and the given values below the header.\<close>

definition column_of :: "string list \<Rightarrow> dataset" where
  "column_of vs = \<lparr>csv_rows = [''c''] # map (\<lambda>v. [v]) vs, csv_error = None,
                    digest = [], size_bytes = 0\<rparr>"

text \<open>
  The store with two versions, with a marker that names a version whose directory is no
  longer on disk.
\<close>

definition ex_stale :: state where
  "ex_stale = ex_state\<lparr>current_version_file := Content ''v9''\<rparr>"



text \<open>A store whose only version directory was made by hand and is named v-5.\<close>

definition ex_negative :: state where
  "ex_negative = ex_empty\<lparr>versions_dir := Some
     [(''v-5'', Dir \<lparr>metadata_json = Missing, datasets = []\<rparr>)]\<rparr>"

section \<open>The steps of a rollback and the files they touch\<close>

lemma log_to_fields [simp]:
  "versions_dir (log_to l m s) = versions_dir s"
  "current_version_file (log_to l m s) = current_version_file s"
  "rollback_log_file (log_to l m s) = rollback_log_file s"
  "index_file (log_to l m s) = index_file s"
  "write_fails (log_to l m s) = write_fails s"
  "logger (log_to l m s) = logger s @ [(l, m)]"
  by (simp_all add: log_to_def)

lemma log_to_derived [simp]:
  "entries (log_to l m s) = entries s"
  "metadata_file (log_to l m s) n = metadata_file s n"
  "write_error (log_to l m s) p = write_error s p"
  "get_all_versions (log_to l m s) = get_all_versions s"
  "get_current_version (log_to l m s) = get_current_version s"
  "audit_step_ok (log_to l m s) = audit_step_ok s"
  "backup_step_ok (log_to l m s) a = backup_step_ok s a"
  by (simp_all add: entries_def metadata_file_def write_error_def get_all_versions_def
        get_current_version_def audit_step_ok_def backup_step_ok_def)

lemma fst_get_rollback_history_log_to [simp]:
  "fst (get_rollback_history cfg (log_to l m s)) = fst (get_rollback_history cfg s)"
  by (simp add: get_rollback_history_def Let_def split: sum.splits)

lemma set_current_version_Inr:
  assumes "set_current_version t s = (Inr u, s')"
  shows "s' = log_to INFO (''Set current version to '' @ t) (s\<lparr>current_version_file := Content t\<rparr>)"
  using assms by (auto simp: set_current_version_def split: option.splits)


lemma save_metadata_frame:
  assumes "save_metadata a j s = (r, s')"
  shows "current_version_file s' = current_version_file s"
    and "rollback_log_file s' = rollback_log_file s"
    and "index_file s' = index_file s"
    and "write_fails s' = write_fails s"
    and "logger s' = logger s"
  using assms by (auto simp: save_metadata_def split: option.splits)

lemma save_metadata_Inl:
  "save_metadata a j s = (Inl e, s') \<Longrightarrow> s' = s"
  by (auto simp: save_metadata_def split: option.splits)

lemma create_rollback_backup_frame [simp]:
  "current_version_file (create_rollback_backup cfg ts v s) = current_version_file s"
  "rollback_log_file (create_rollback_backup cfg ts v s) = rollback_log_file s"
  "index_file (create_rollback_backup cfg ts v s) = index_file s"
  "write_fails (create_rollback_backup cfg ts v s) = write_fails s"
  by (auto simp: create_rollback_backup_def Let_def save_metadata_def
           split: option.splits sum.splits prod.splits)

lemma log_rollback_event_frame [simp]:
  "current_version_file (log_rollback_event cfg ts a b s) = current_version_file s"
  "versions_dir (log_rollback_event cfg ts a b s) = versions_dir s"
  "index_file (log_rollback_event cfg ts a b s) = index_file s"
  "write_fails (log_rollback_event cfg ts a b s) = write_fails s"
  by (auto simp: log_rollback_event_def Let_def split: option.splits sum.splits)




















section \<open>Rollback\<close>





text \<open>
  C2, as amended. \<open>rollback_to_version\<close> raises FileNotFoundError when the target is
  not among the versions on disk, whatever the marker is. It raises ValueError with the
  text "Already at version X" when the target is among the versions on disk and equals
  the current-version marker as \<open>get_current_version\<close> returns it. In both cases the
  state after the call is the state before it with one more line in the logger: the
  current-version file, every metadata file, the rollback log and the index are
  untouched.
\<close>

theorem rollback_rejected_leaves_state:
  "(target \<notin> set (get_all_versions s) \<longrightarrow>
      rollback_to_version cfg tb te target backup s =
        (Inl (Exc FileNotFoundError
               (''Target version '' @ [CHR 0x27] @ target @ [CHR 0x27] @ '' does not exist'')),
         s\<lparr>logger := logger s @ [(ERROR,
               ''Target version '' @ [CHR 0x27] @ target @ [CHR 0x27] @ '' does not exist'')]\<rparr>))
   \<and> (target \<in> set (get_all_versions s) \<and> get_current_version s = Inr (Some target) \<longrightarrow>
      rollback_to_version cfg tb te target backup s =
        (Inl (Exc ValueError (''Already at version '' @ target)),
         s\<lparr>logger := logger s @ [(WARNING, ''Already at version '' @ target)]\<rparr>))"
  by (simp add: rollback_to_version_def log_to_def Let_def)

text \<open>Both rejections in the store with two versions, whose current version is v2.\<close>

theorem rollback_rejected_leaves_state_witness:
  "''v7'' \<notin> set (get_all_versions ex_state)
   \<and> rollback_to_version ex_config ''t1'' ''t2'' ''v7'' True ex_state =
        (Inl (Exc FileNotFoundError ''Target version 'v7' does not exist''),
         ex_state\<lparr>logger := [(ERROR, ''Target version 'v7' does not exist'')]\<rparr>)
   \<and> ''v2'' \<in> set (get_all_versions ex_state)
   \<and> get_current_version ex_state = Inr (Some ''v2'')
   \<and> rollback_to_version ex_config ''t1'' ''t2'' ''v2'' True ex_state =
        (Inl (Exc ValueError ''Already at version v2''),
         ex_state\<lparr>logger := [(WARNING, ''Already at version v2'')]\<rparr>)"
proof -
  have vs: "get_all_versions ex_state = [''v1'', ''v2'']" by code_simp
  have cur: "get_current_version ex_state = Inr (Some ''v2'')" by code_simp
  have lg: "logger ex_state = []" by (simp add: ex_state_def)
  have a: "''v7'' \<notin> set (get_all_versions ex_state)" by (simp add: vs)
  have b: "''v2'' \<in> set (get_all_versions ex_state)" by (simp add: vs)
  from rollback_rejected_leaves_state [of "''v7''" ex_state ex_config "''t1''" "''t2''" True] a
  have c: "rollback_to_version ex_config ''t1'' ''t2'' ''v7'' True ex_state =
        (Inl (Exc FileNotFoundError ''Target version 'v7' does not exist''),
         ex_state\<lparr>logger := [(ERROR, ''Target version 'v7' does not exist'')]\<rparr>)"
    by (simp add: lg)
  from rollback_rejected_leaves_state [of "''v2''" ex_state ex_config "''t1''" "''t2''" True] b cur
  have d: "rollback_to_version ex_config ''t1'' ''t2'' ''v2'' True ex_state =
        (Inl (Exc ValueError ''Already at version v2''),
         ex_state\<lparr>logger := [(WARNING, ''Already at version v2'')]\<rparr>)"
    by (simp add: lg)
  from a b c d cur show ?thesis by blast
qed

text \<open>
  C2 as stated fails: the marker is v9, the directory of v9 is gone, and the rollback to
  v9 raises FileNotFoundError, not the validation error, because the existence check
  comes first.
\<close>

theorem rollback_to_marker_not_on_disk:
  "get_current_version ex_stale = Inr (Some ''v9'')
   \<and> ''v9'' \<notin> set (get_all_versions ex_stale)
   \<and> fst (rollback_to_version ex_config ''t1'' ''t2'' ''v9'' True ex_stale)
       = Inl (Exc FileNotFoundError ''Target version 'v9' does not exist'')"
  by code_simp






section \<open>Reading the rollback history\<close>

lemma get_rollback_history_frame:
  "versions_dir (snd (get_rollback_history cfg s)) = versions_dir s"
  "current_version_file (snd (get_rollback_history cfg s)) = current_version_file s"
  "rollback_log_file (snd (get_rollback_history cfg s)) = rollback_log_file s"
  "index_file (snd (get_rollback_history cfg s)) = index_file s"
  by (simp_all add: get_rollback_history_def Let_def split: sum.splits)

text \<open>
  C10, as amended. \<open>get_rollback_history\<close> never raises (its model has no exception
  to return) and leaves every file as it was. It returns the value stored under
  \<open>rollbacks\<close> when the log parses as an object with that key: the list of recorded
  events, oldest first, whenever that value is a list, as in every log the audit step
  wrote. It returns the empty list when the log does not exist, when reading or parsing
  it fails, when the parsed value is not an object and when the object has no such key.
\<close>

theorem get_rollback_history_total:
  "fst (get_rollback_history cfg s) =
     (case rollback_log_file s of
        Missing \<Rightarrow> JArr []
      | Unreadable e \<Rightarrow> JArr []
      | Content h \<Rightarrow>
          (case h of
             JObj kvs \<Rightarrow> (case map_of kvs ''rollbacks'' of None \<Rightarrow> JArr [] | Some v \<Rightarrow> v)
           | _ \<Rightarrow> JArr []))
   \<and> versions_dir (snd (get_rollback_history cfg s)) = versions_dir s
   \<and> current_version_file (snd (get_rollback_history cfg s)) = current_version_file s
   \<and> rollback_log_file (snd (get_rollback_history cfg s)) = rollback_log_file s
   \<and> index_file (snd (get_rollback_history cfg s)) = index_file s"
proof -
  have "fst (get_rollback_history cfg s) =
     (case rollback_log_file s of
        Missing \<Rightarrow> JArr []
      | Unreadable e \<Rightarrow> JArr []
      | Content h \<Rightarrow>
          (case h of
             JObj kvs \<Rightarrow> (case map_of kvs ''rollbacks'' of None \<Rightarrow> JArr [] | Some v \<Rightarrow> v)
           | _ \<Rightarrow> JArr []))"
    by (simp add: get_rollback_history_def Let_def load_json_def py_get_def
        split: file_state.splits json.splits option.splits)
  then show ?thesis by (simp add: get_rollback_history_frame)
qed

text \<open>
  C10 as stated fails: on a log file holding \<open>{"rollbacks": null}\<close> the result is
  \<open>None\<close>, not a list.
\<close>

theorem get_rollback_history_not_list:
  "\<not> is_list (fst (get_rollback_history ex_config
       (ex_state\<lparr>rollback_log_file := Content (JObj [(''rollbacks'', JNull)])\<rparr>)))"
  by code_simp

section \<open>Listing the versions\<close>

lemma set_map_filter: "set (List.map_filter f xs) = {y. \<exists>x \<in> set xs. f x = Some y}"
  by (induction xs) (auto simp: List.map_filter_simps split: option.splits)

lemma is_version_entry_iff:
  "is_version_entry (n, e) \<longleftrightarrow>
     (\<exists>d. e = Dir d) \<and> startswith n ''v'' \<and> version_number n \<noteq> None"
  by (cases e) (auto simp: is_version_entry_def)



section \<open>Version numbers and their names\<close>

lemma of_char_digit: "k < 10 \<Longrightarrow> (of_char (char_of (48 + k)) :: nat) = 48 + k"
  by simp

lemma digit_char:
  assumes "k < 10"
  shows "is_digit (char_of (48 + k))" and "digit_val (char_of (48 + k)) = k"
    and "\<not> is_space (char_of (48 + k))" and "char_of (48 + k) \<noteq> CHR ''_''"
    and "char_of (48 + k) \<noteq> CHR ''-''" and "char_of (48 + k) \<noteq> CHR ''+''"
proof -
  have v: "(of_char (char_of (48 + k)) :: nat) = 48 + k"
    using assms by simp
  show "is_digit (char_of (48 + k))" using assms v by (simp add: is_digit_def)
  show "digit_val (char_of (48 + k)) = k" using v by (simp add: digit_val_def)
  show "\<not> is_space (char_of (48 + k))" using assms v by (simp add: is_space_def)
  have "(of_char (char_of (48 + k)) :: nat) \<noteq> of_char CHR ''_''" using assms v by simp
  then show "char_of (48 + k) \<noteq> CHR ''_''" by metis
  have "(of_char (char_of (48 + k)) :: nat) \<noteq> of_char CHR ''-''" using assms v by simp
  then show "char_of (48 + k) \<noteq> CHR ''-''" by metis
  have "(of_char (char_of (48 + k)) :: nat) \<noteq> of_char CHR ''+''" using assms v by simp
  then show "char_of (48 + k) \<noteq> CHR ''+''" by metis
qed

lemma digits_of_small: "n < 10 \<Longrightarrow> digits_of n = [char_of (48 + n)]"
  by (subst digits_of.simps) simp

lemma digits_of_big:
  "\<not> n < 10 \<Longrightarrow> digits_of n = digits_of (n div 10) @ [char_of (48 + n mod 10)]"
  by (subst digits_of.simps) simp

lemma nat_of_digits_snoc: "nat_of_digits (ds @ [c]) = 10 * nat_of_digits ds + digit_val c"
  by (simp add: nat_of_digits_def)

lemma digits_of_props:
  "digits_of n \<noteq> [] \<and> list_all is_digit (digits_of n) \<and> nat_of_digits (digits_of n) = n"
proof (induction n rule: digits_of.induct)
  case (1 n)
  show ?case
  proof (cases "n < 10")
    case True
    then show ?thesis
      by (simp add: digits_of_small digit_char nat_of_digits_def)
  next
    case False
    with 1 have IH: "digits_of (n div 10) \<noteq> []" "list_all is_digit (digits_of (n div 10))"
      "nat_of_digits (digits_of (n div 10)) = n div 10" by simp_all
    have m: "n mod 10 < 10" by simp
    show ?thesis using IH digit_char(1,2)[OF m]
      by (simp add: digits_of_big [OF False] nat_of_digits_snoc)
  qed
qed

lemma digits_us_all_digits:
  "list_all is_digit ds \<Longrightarrow> ds \<noteq> [] \<or> prev \<Longrightarrow> digits_us prev ds = Some ds"
proof (induction ds arbitrary: prev)
  case Nil
  then show ?case by simp
next
  case (Cons c cs)
  from Cons.prems have d: "is_digit c" and ds: "list_all is_digit cs" by simp_all
  have u: "c \<noteq> CHR ''_''"
  proof
    assume "c = CHR ''_''"
    with d show False by (simp add: is_digit_def)
  qed
  have "digits_us True cs = Some cs"
    using Cons.IH [OF ds, of True] by simp
  then show ?case using d u by simp
qed

lemma strip_no_space:
  assumes "s \<noteq> []" "\<not> is_c_space (hd s)" "\<not> is_c_space (last s)"
  shows "c_strip s = s"
proof -
  have "dropWhile is_c_space s = s" using assms by (cases s) simp_all
  moreover have "dropWhile is_c_space (rev s) = rev s"
    using assms by (cases "rev s") (simp_all add: last_rev [symmetric] hd_rev)
  ultimately show ?thesis by (simp add: c_strip_def strip_with_def)
qed

lemma digit_not_space: "is_digit c \<Longrightarrow> \<not> is_c_space c"
  by (auto simp: is_digit_def is_c_space_def Let_def)

lemma digit_not_sign: "is_digit c \<Longrightarrow> c \<noteq> CHR ''-'' \<and> c \<noteq> CHR ''+''"
  by (auto simp: is_digit_def)

lemma py_int_digits:
  assumes "ds \<noteq> []" "list_all is_digit ds"
  shows "py_int ds = Some (int (nat_of_digits ds))"
    and "py_int (CHR ''-'' # ds) = Some (- int (nat_of_digits ds))"
proof -
  have hd: "is_digit (hd ds)" and lst: "is_digit (last ds)"
    using assms by (cases ds; simp add: list_all_iff)+
  have s1: "c_strip ds = ds"
    using assms hd lst by (intro strip_no_space) (auto dest: digit_not_space)
  have s2: "c_strip (CHR ''-'' # ds) = CHR ''-'' # ds"
    using assms lst by (intro strip_no_space) (auto dest: digit_not_space simp: is_c_space_def)
  have sg: "split_sign ds = (False, ds)"
    using assms hd by (cases ds) (auto simp: split_sign_def dest: digit_not_sign)
  have dd: "decimal_digits ds = Some ds"
    using assms by (simp add: decimal_digits_def digits_us_all_digits)
  show "py_int ds = Some (int (nat_of_digits ds))"
    by (simp add: py_int_def s1 sg dd)
  show "py_int (CHR ''-'' # ds) = Some (- int (nat_of_digits ds))"
    by (simp add: py_int_def s2 split_sign_def dd)
qed

lemma py_int_py_str_int: "py_int (py_str_int n) = Some n"
  using py_int_digits [of "digits_of (nat n)"] py_int_digits [of "digits_of (nat (- n))"]
    digits_of_props [of "nat n"] digits_of_props [of "nat (- n)"]
  by (auto simp: py_str_int_def)

lemma version_number_name: "version_number (''v'' @ py_str_int n) = Some n"
  by (simp add: version_number_def py_int_py_str_int)

section \<open>Allocating the next version identifier\<close>

lemma existing_versions_Nil [simp]: "existing_versions [] = []"
  by (simp add: existing_versions_def List.map_filter_simps)

lemma existing_versions_Cons [simp]:
  "existing_versions ((n, e) # es) =
     (case e of
        PlainFile \<Rightarrow> existing_versions es
      | Dir d \<Rightarrow> if startswith n ''v''
                 then (case version_number n of
                         None \<Rightarrow> existing_versions es
                       | Some k \<Rightarrow> k # existing_versions es)
                 else existing_versions es)"
  by (simp add: existing_versions_def List.map_filter_simps split: entry.splits option.splits)

lemma existing_versions_set:
  "set (existing_versions es) =
     {k. \<exists>n d. (n, Dir d) \<in> set es \<and> startswith n ''v'' \<and> version_number n = Some k}"
proof (induction es)
  case Nil
  show ?case by simp
next
  case (Cons ne es)
  obtain n e where ne: "ne = (n, e)" by (cases ne)
  show ?case unfolding ne using Cons.IH
    by (cases e; cases "version_number n") auto
qed

lemma existing_versions_append:
  "existing_versions (es @ es') = existing_versions es @ existing_versions es'"
  by (simp add: existing_versions_def List.map_filter_def)

lemma existing_versions_add_dataset [simp]:
  "existing_versions (add_dataset_entries n f d es) = existing_versions es"
  by (induction es) (auto split: entry.splits option.splits)

lemma existing_versions_set_metadata [simp]:
  "existing_versions (set_metadata_entries n j es) = existing_versions es"
  by (induction es) (auto split: entry.splits option.splits)

lemma version_names_add_dataset [simp]:
  "map fst (filter is_version_entry (add_dataset_entries n f d es))
     = map fst (filter is_version_entry es)"
  by (induction es) (auto simp: is_version_entry_iff split: entry.splits)

lemma version_names_set_metadata [simp]:
  "map fst (filter is_version_entry (set_metadata_entries n j es))
     = map fst (filter is_version_entry es)"
  by (induction es) (auto simp: is_version_entry_iff split: entry.splits)

lemma next_greater:
  "k \<in> set (existing_versions (entries s)) \<Longrightarrow> k < get_next_version_number s"
proof -
  assume k: "k \<in> set (existing_versions (entries s))"
  then have ne: "existing_versions (entries s) \<noteq> []" by auto
  then obtain es where es: "versions_dir s = Some es" "entries s = es"
    by (cases "versions_dir s") (auto simp: entries_def)
  have "k \<le> Max (set (existing_versions es))" using k es by simp
  then show ?thesis using ne es by (simp add: get_next_version_number_def)
qed

lemma next_version_number_eq:
  "get_next_version_number s =
     (if existing_versions (entries s) = [] then 1
      else Max (set (existing_versions (entries s))) + 1)"
  by (cases "versions_dir s")
     (simp_all add: get_next_version_number_def entries_def)


lemma analyze_csv_frame [simp]:
  "versions_dir (snd (analyze_csv d s)) = versions_dir s"
  "current_version_file (snd (analyze_csv d s)) = current_version_file s"
  "rollback_log_file (snd (analyze_csv d s)) = rollback_log_file s"
  "index_file (snd (analyze_csv d s)) = index_file s"
  "write_fails (snd (analyze_csv d s)) = write_fails s"
  by (simp_all add: analyze_csv_def Let_def split: list.splits option.splits)

lemma infer_data_types_frame [simp]:
  "versions_dir (snd (infer_data_types d cs s)) = versions_dir s"
  "current_version_file (snd (infer_data_types d cs s)) = current_version_file s"
  "rollback_log_file (snd (infer_data_types d cs s)) = rollback_log_file s"
  "index_file (snd (infer_data_types d cs s)) = index_file s"
  "write_fails (snd (infer_data_types d cs s)) = write_fails s"
  by (simp_all add: infer_data_types_def Let_def split: sum.splits)

lemma generate_metadata_frame [simp]:
  "versions_dir (snd (generate_metadata cfg ts v p d f q s)) = versions_dir s"
  "current_version_file (snd (generate_metadata cfg ts v p d f q s)) = current_version_file s"
  "rollback_log_file (snd (generate_metadata cfg ts v p d f q s)) = rollback_log_file s"
  "index_file (snd (generate_metadata cfg ts v p d f q s)) = index_file s"
  "write_fails (snd (generate_metadata cfg ts v p d f q s)) = write_fails s"
  by (simp_all add: generate_metadata_def Let_def split_beta)

lemma analyze_csv_value: "fst (analyze_csv d s) = fst (analyze_csv d s0)"
  by (simp add: analyze_csv_def Let_def split: list.splits option.splits)

lemma infer_data_types_value: "fst (infer_data_types d cs s) = fst (infer_data_types d cs s0)"
  by (simp add: infer_data_types_def Let_def split: sum.splits)

lemma generate_metadata_value:
  "fst (generate_metadata cfg ts v p d f q s) = fst (generate_metadata cfg ts v p d f q s0)"
  using analyze_csv_value [of d s s0]
        infer_data_types_value [of d "snd (fst (analyze_csv d s0))" "snd (analyze_csv d s)"
          "snd (analyze_csv d s0)"]
  by (simp add: generate_metadata_def Let_def split_beta split: option.splits)

lemma update_index_frame:
  assumes "update_index cfg tc tu v m s = (r, s')"
  shows "versions_dir s' = versions_dir s" and "current_version_file s' = current_version_file s"
    and "rollback_log_file s' = rollback_log_file s" and "write_fails s' = write_fails s"
  using assms
  by (auto simp: update_index_def Let_def split: sum.splits option.splits if_splits)

lemma set_current_version_frame:
  assumes "set_current_version v s = (r, s')"
  shows "versions_dir s' = versions_dir s"
    and "rollback_log_file s' = rollback_log_file s" and "write_fails s' = write_fails s"
    and "index_file s' = index_file s"
  using assms by (auto simp: set_current_version_def split: option.splits)

lemma ensure_version_dir_Inr:
  assumes "ensure_version_dir name s = (Inr u, s1)"
  shows "map_of (entries s) name \<noteq> Some PlainFile"
    and "entries s1 = (if map_of (entries s) name = None
                       then entries s @ [(name, Dir \<lparr>metadata_json = Missing, datasets = []\<rparr>)]
                       else entries s)"
    and "versions_dir s1 = Some (entries s1) \<or> (versions_dir s1 = None \<and> versions_dir s = None)"
    and "current_version_file s1 = current_version_file s"
    and "rollback_log_file s1 = rollback_log_file s"
    and "index_file s1 = index_file s" and "write_fails s1 = write_fails s"
  using assms
  by (auto simp: ensure_version_dir_def entries_def split: option.splits entry.splits)

lemma copy_dataset_Inr:
  assumes "copy_dataset name fname d s = (Inr u, s')"
  shows "s' = s\<lparr>versions_dir := map_option (add_dataset_entries name fname d) (versions_dir s)\<rparr>"
  using assms by (auto simp: copy_dataset_def split: option.splits)

lemma save_metadata_Inr:
  assumes "save_metadata name j s = (Inr u, s')"
  shows "s' = s\<lparr>versions_dir := map_option (set_metadata_entries name j) (versions_dir s)\<rparr>"
  using assms by (auto simp: save_metadata_def split: option.splits)

lemma create_version_Inr:
  assumes "create_version cfg t1 t2 t3 f input q s = (Inr name, s')"
  shows "name = ''v'' @ py_str_int (get_next_version_number s)"
    and "\<exists>d s1 s3. input = Some d \<and> ensure_version_dir name s = (Inr (), s1)
          \<and> versions_dir s' =
              map_option (set_metadata_entries name
                 (fst (generate_metadata cfg t1 name
                         (os_path_join (version_path cfg name) (basename f)) d f q s3)))
                (map_option (add_dataset_entries name (basename f) d) (versions_dir s1))"
    and "current_version_file s' = Content name"
proof -
  from assms obtain d where d: "input = Some d"
    by (cases input) (auto simp: create_version_def Let_def)
  let ?n = "''v'' @ py_str_int (get_next_version_number s)"
  let ?p = "os_path_join (version_path cfg ?n) (basename f)"
  from assms d obtain s1 where e: "ensure_version_dir ?n s = (Inr (), s1)"
    by (auto simp: create_version_def Let_def split: if_splits prod.splits sum.splits)
  from assms d e obtain s2 where c: "copy_dataset ?n (basename f) d s1 = (Inr (), s2)"
    by (auto simp: create_version_def Let_def split: if_splits prod.splits sum.splits)
  let ?s3 = "log_to INFO (''Copied dataset to '' @ ?p) s2"
  obtain m s4 where g: "generate_metadata cfg t1 ?n ?p d f q ?s3 = (m, s4)"
    by (cases "generate_metadata cfg t1 ?n ?p d f q ?s3")
  from assms d e c g obtain s5 where sv: "save_metadata ?n m s4 = (Inr (), s5)"
    by (auto simp: create_version_def Let_def split: if_splits prod.splits sum.splits)
  let ?s6 = "log_to INFO (''Created metadata for '' @ ?n) s5"
  from assms d e c g sv obtain s7 where u: "update_index cfg t2 t3 ?n m ?s6 = (Inr (), s7)"
    by (auto simp: create_version_def Let_def split: if_splits prod.splits sum.splits)
  from assms d e c g sv u obtain s8 where sc: "set_current_version ?n s7 = (Inr (), s8)"
    by (auto simp: create_version_def Let_def split: if_splits prod.splits sum.splits)
  from assms d e c g sv u sc have r: "name = ?n"
    and s': "s' = log_to INFO (''Version '' @ [CHR 0x27] @ ?n @ [CHR 0x27] @ '' created successfully'') s8"
    by (auto simp: create_version_def Let_def split: if_splits prod.splits sum.splits)
  show "name = ?n" by (rule r)
  have "current_version_file s8 = Content ?n"
    using set_current_version_Inr [OF sc] by simp
  then show "current_version_file s' = Content name" by (simp add: s' r)
  have v8: "versions_dir s8 = versions_dir s5"
    using set_current_version_frame(1) [OF sc] update_index_frame(1) [OF u] by simp
  have v5: "versions_dir s5 = map_option (set_metadata_entries ?n m) (versions_dir s4)"
    using save_metadata_Inr [OF sv] by simp
  from g have "s4 = snd (generate_metadata cfg t1 ?n ?p d f q ?s3)" by simp
  then have v4: "versions_dir s4 = versions_dir s2" by simp
  have v2: "versions_dir s2 = map_option (add_dataset_entries ?n (basename f) d) (versions_dir s1)"
    using copy_dataset_Inr [OF c] by simp
  have m: "m = fst (generate_metadata cfg t1 ?n ?p d f q ?s3)" using g by simp
  have "versions_dir s' =
      map_option (set_metadata_entries ?n (fst (generate_metadata cfg t1 ?n ?p d f q ?s3)))
        (map_option (add_dataset_entries ?n (basename f) d) (versions_dir s1))"
    by (simp add: s' v8 v5 v4 v2 m)
  with d e r show "\<exists>d s1 s3. input = Some d \<and> ensure_version_dir name s = (Inr (), s1)
          \<and> versions_dir s' =
              map_option (set_metadata_entries name
                 (fst (generate_metadata cfg t1 name
                         (os_path_join (version_path cfg name) (basename f)) d f q s3)))
                (map_option (add_dataset_entries name (basename f) d) (versions_dir s1))"
    by blast
qed


lemma startswith_v [simp]: "startswith (CHR ''v'' # x) ''v''"
  by (simp add: startswith_def)

lemma version_number_v [simp]: "version_number (CHR ''v'' # py_str_int n) = Some n"
  using version_number_name [of n] by simp

lemma next_name_not_listed:
  "map_of (entries s) (''v'' @ py_str_int (get_next_version_number s)) \<noteq> Some (Dir d)"
proof
  let ?k = "get_next_version_number s"
  assume "map_of (entries s) (''v'' @ py_str_int ?k) = Some (Dir d)"
  then have "(''v'' @ py_str_int ?k, Dir d) \<in> set (entries s)" by (rule map_of_SomeD)
  then have "?k \<in> set (existing_versions (entries s))"
    unfolding existing_versions_set using version_number_name [of ?k] startswith_v [of "py_str_int ?k"]
    by auto
  then have "?k < ?k" by (rule next_greater)
  then show False by simp
qed

lemma get_all_versions_set:
  "set (get_all_versions s) = fst ` {ne \<in> set (entries s). is_version_entry ne}"
  by (cases "versions_dir s") (auto simp: get_all_versions_def entries_def)

lemma create_version_listing:
  assumes "create_version cfg t1 t2 t3 f input q s = (Inr name, s')"
  shows "map_of (entries s) name = None"
    and "\<exists>d m e. input = Some d \<and>
           entries s' = set_metadata_entries name m
                          (add_dataset_entries name (basename f) d (entries s @ [(name, Dir e)]))
           \<and> m = fst (generate_metadata cfg t1 name
                         (os_path_join (version_path cfg name) (basename f)) d f q s)"
proof -
  note C = create_version_Inr [OF assms]
  from C(2) obtain d s1 s3 where d: "input = Some d"
    and e: "ensure_version_dir name s = (Inr (), s1)"
    and v: "versions_dir s' =
              map_option (set_metadata_entries name
                 (fst (generate_metadata cfg t1 name
                         (os_path_join (version_path cfg name) (basename f)) d f q s3)))
                (map_option (add_dataset_entries name (basename f) d) (versions_dir s1))"
    by blast
  note E = ensure_version_dir_Inr [OF e]
  show none: "map_of (entries s) name = None"
  proof (cases "map_of (entries s) name")
    case None
    then show ?thesis .
  next
    case (Some x)
    with E(1) obtain dd where "map_of (entries s) name = Some (Dir dd)" by (cases x) auto
    with next_name_not_listed [of s dd] C(1) show ?thesis by simp
  qed
  let ?e = "\<lparr>metadata_json = Missing, datasets = []\<rparr>"
  have e1: "entries s1 = entries s @ [(name, Dir ?e)]" using E(2) none by simp
  then have v1: "versions_dir s1 = Some (entries s @ [(name, Dir ?e)])"
    using E(3) by (auto simp: entries_def)
  let ?m = "fst (generate_metadata cfg t1 name
                         (os_path_join (version_path cfg name) (basename f)) d f q s)"
  have "fst (generate_metadata cfg t1 name
                         (os_path_join (version_path cfg name) (basename f)) d f q s3) = ?m"
    by (rule generate_metadata_value)
  with v v1 have "entries s' = set_metadata_entries name ?m
                          (add_dataset_entries name (basename f) d (entries s @ [(name, Dir ?e)]))"
    by (simp add: entries_def)
  with d show "\<exists>d m e. input = Some d \<and>
           entries s' = set_metadata_entries name m
                          (add_dataset_entries name (basename f) d (entries s @ [(name, Dir e)]))
           \<and> m = fst (generate_metadata cfg t1 name
                         (os_path_join (version_path cfg name) (basename f)) d f q s)"
    by blast
qed

lemma create_version_next:
  assumes "create_version cfg t1 t2 t3 f input q s = (Inr name, s')"
  shows "name = ''v'' @ py_str_int (get_next_version_number s)"
    and "name \<notin> set (get_all_versions s)"
    and "name \<in> set (get_all_versions s')"
    and "get_next_version_number s' = get_next_version_number s + 1"
proof -
  let ?k = "get_next_version_number s"
  show n: "name = ''v'' @ py_str_int ?k" by (rule create_version_Inr(1) [OF assms])
  note L = create_version_listing [OF assms]
  from L(2) obtain d m e where
    es': "entries s' = set_metadata_entries name m
            (add_dataset_entries name (basename f) d (entries s @ [(name, Dir e)]))"
    by blast
  from L(1) have "name \<notin> fst ` set (entries s)" by (simp add: map_of_eq_None_iff)
  then show "name \<notin> set (get_all_versions s)"
    by (auto simp: get_all_versions_set)
  have vn: "version_number name = Some ?k" by (simp add: n)
  have "map fst (filter is_version_entry (entries s'))
          = map fst (filter is_version_entry (entries s)) @ [name]"
    using vn n by (simp add: es' is_version_entry_iff)
  then have "name \<in> set (map fst (filter is_version_entry (entries s')))" by simp
  then show "name \<in> set (get_all_versions s')"
    by (auto simp: get_all_versions_set)
  have ex: "existing_versions (entries s') = existing_versions (entries s) @ [?k]"
    using vn n by (simp add: es' existing_versions_append)
  have "Max (set (existing_versions (entries s) @ [?k])) = ?k"
  proof (rule Max_eqI)
    show "finite (set (existing_versions (entries s) @ [?k]))" by simp
    show "?k \<in> set (existing_versions (entries s) @ [?k])" by simp
    fix y assume "y \<in> set (existing_versions (entries s) @ [?k])"
    then show "y \<le> ?k" using next_greater [of y s] by auto
  qed
  then show "get_next_version_number s' = ?k + 1"
    by (simp add: next_version_number_eq [of s'] ex)
qed

lemma next_version_number_after_removal:
  assumes "set (entries s') \<subseteq> set (entries s)"
    and "k \<in> set (existing_versions (entries s'))"
    and "k = Max (set (existing_versions (entries s)))"
  shows "get_next_version_number s' = get_next_version_number s"
proof -
  have sub: "set (existing_versions (entries s')) \<subseteq> set (existing_versions (entries s))"
    using assms(1) unfolding existing_versions_set by blast
  have ne': "existing_versions (entries s') \<noteq> []" using assms(2) by auto
  then have ne: "existing_versions (entries s) \<noteq> []" using sub by auto
  have "Max (set (existing_versions (entries s'))) = k"
  proof (rule Max_eqI)
    show "finite (set (existing_versions (entries s')))" by simp
    show "k \<in> set (existing_versions (entries s'))" by (rule assms(2))
    fix y assume "y \<in> set (existing_versions (entries s'))"
    then have "y \<in> set (existing_versions (entries s))" using sub by blast
    then show "y \<le> k" unfolding assms(3) by simp
  qed
  then show ?thesis using ne ne' assms(3) by (simp add: next_version_number_eq)
qed

text \<open>
  C4, as amended. The next version number is 1 plus the largest number among the
  version directories (the directories named \<open>v\<close> followed by text that \<open>int\<close>
  converts), or 1 if there is none; so it is greater than the number of every existing
  version directory. A successful \<open>create_version\<close> returns \<open>v\<close> followed by that
  number, a name that was not among the versions before and is among them afterwards,
  and the next number is then one more: the identifiers are strictly increasing. They
  start at 1 in a store with no version directory, where the identifier returned is v1.
  Removing version directories by hand does not change the next number as long as a
  directory with the largest number stays.
\<close>

theorem next_version_identifier:
  "get_next_version_number s =
     (if existing_versions (entries s) = [] then 1
      else Max (set (existing_versions (entries s))) + 1)
   \<and> set (existing_versions (entries s)) =
       {k. \<exists>n d. (n, Dir d) \<in> set (entries s) \<and> startswith n ''v'' \<and> version_number n = Some k}
   \<and> (\<forall>k \<in> set (existing_versions (entries s)). k < get_next_version_number s)
   \<and> (create_version cfg t1 t2 t3 f input q s = (Inr name, s') \<longrightarrow>
         name = ''v'' @ py_str_int (get_next_version_number s)
         \<and> name \<notin> set (get_all_versions s)
         \<and> name \<in> set (get_all_versions s')
         \<and> get_next_version_number s' = get_next_version_number s + 1)
   \<and> (create_version cfg t1 t2 t3 f input q s = (Inr name, s')
        \<and> existing_versions (entries s) = [] \<longrightarrow> name = ''v1'')
   \<and> (set (entries r) \<subseteq> set (entries s)
        \<and> Max (set (existing_versions (entries s))) \<in> set (existing_versions (entries r)) \<longrightarrow>
         get_next_version_number r = get_next_version_number s)"
proof -
  have one: "py_str_int 1 = ''1''" by code_simp
  have "name = ''v1''"
    if "create_version cfg t1 t2 t3 f input q s = (Inr name, s')"
      and "existing_versions (entries s) = []"
    using create_version_next(1) [OF that(1)] next_version_number_eq [of s] that(2) one
    by simp
  then show ?thesis
    using next_version_number_eq [of s] existing_versions_set [of "entries s"]
      next_greater [of _ s] create_version_next [of cfg t1 t2 t3 f input q s name s']
      next_version_number_after_removal [of r s]
    by blast
qed

text \<open>
  C4 as stated fails: in a store whose only version directory is v-5 the identifier
  allocated is v-4, so the identifiers do not start at 1 in every state of the versions
  directory.
\<close>

theorem next_version_identifier_below_one:
  "existing_versions (entries ex_negative) = [- 5]
   \<and> get_next_version_number ex_negative = - 4
   \<and> fst (create_version ex_config ''t1'' ''t2'' ''t3'' ''data/processed/clean.csv''
            (Some ex_dataset) None ex_negative) = Inr ''v-4''"
  by code_simp

text \<open>
  In the empty store the first identifier is v1. In the store with v1 and v2 the next
  one is v3, then v4, and it is still v3 after v1 was removed.
\<close>

theorem next_version_identifier_witness:
  "existing_versions (entries ex_empty) = []
   \<and> get_next_version_number ex_empty = 1
   \<and> fst (create_version ex_config ''t1'' ''t2'' ''t3'' ''data/processed/clean.csv''
            (Some ex_dataset) None ex_empty) = Inr ''v1''
   \<and> existing_versions (entries ex_state) = [2, 1]
   \<and> get_next_version_number ex_state = 3
   \<and> create_version ex_config ''t1'' ''t2'' ''t3'' ''data/processed/clean.csv''
         (Some ex_dataset) None ex_state
       = (Inr ''v3'', snd (create_version ex_config ''t1'' ''t2'' ''t3''
                            ''data/processed/clean.csv'' (Some ex_dataset) None ex_state))
   \<and> ''v3'' \<notin> set (get_all_versions ex_state)
   \<and> get_next_version_number
         (snd (create_version ex_config ''t1'' ''t2'' ''t3'' ''data/processed/clean.csv''
                 (Some ex_dataset) None ex_state)) = 4
   \<and> set (entries ex_v1_removed) \<subseteq> set (entries ex_state)
   \<and> Max (set (existing_versions (entries ex_state))) \<in> set (existing_versions (entries ex_v1_removed))
   \<and> get_next_version_number ex_v1_removed = 3"
proof -
  let ?c = "create_version ex_config ''t1'' ''t2'' ''t3'' ''data/processed/clean.csv''
              (Some ex_dataset) None ex_state"
  have a: "get_next_version_number ex_empty = 1" by code_simp
  have b: "fst (create_version ex_config ''t1'' ''t2'' ''t3'' ''data/processed/clean.csv''
            (Some ex_dataset) None ex_empty) = Inr ''v1''" by code_simp
  have c: "existing_versions (entries ex_state) = [2, 1]" by code_simp
  have d: "get_next_version_number ex_state = 3" by code_simp
  have "fst ?c = Inr ''v3''" by code_simp
  then have e: "?c = (Inr ''v3'', snd ?c)" by (simp add: prod_eq_iff)
  have f: "set (entries ex_v1_removed) \<subseteq> set (entries ex_state)" by code_simp
  have g: "Max (set (existing_versions (entries ex_state)))
             \<in> set (existing_versions (entries ex_v1_removed))" by code_simp
  have e1: "existing_versions (entries ex_empty) = []" by code_simp
  note T = next_version_identifier [of ex_state ex_config "''t1''" "''t2''" "''t3''"
      "''data/processed/clean.csv''" "Some ex_dataset" None "''v3''" "snd ?c" ex_v1_removed]
  from T e have h: "''v3'' \<notin> set (get_all_versions ex_state)"
    and i: "get_next_version_number (snd ?c) = get_next_version_number ex_state + 1" by blast+
  from T f g have j: "get_next_version_number ex_v1_removed = get_next_version_number ex_state"
    by blast
  from a b c d e e1 f g h i j show ?thesis by simp
qed

section \<open>Comparing a version with itself\<close>





lemma round2_zero [simp]: "round2 0 = 0"
  by (simp add: round2_def round_half_even_def)











end
